theory Spec2Isabelle
  imports Main "HOL-Library.Sublist"
begin

section \<open>JavaScript values, failures and promises\<close>

text \<open>
  The adapter in \<^verbatim>\<open>src/api/chains/ton/util/apiV3.ts\<close> works on decoded JSON. A thrown
  exception or a rejected promise is the left summand of a result \<open>error + 'a\<close>. Reading a
  property of \<^verbatim>\<open>undefined\<close> or \<^verbatim>\<open>null\<close> throws the runtime's \<open>TypeError\<close>; every other
  failure comes from a collaborator (the transport, the address codec).
\<close>

datatype error = TypeError | FetchError string

text \<open>
  A property of a decoded object that the adapter reads as a string: it may be missing
  (\<^verbatim>\<open>undefined\<close>), \<^verbatim>\<open>null\<close> or a string.
\<close>

datatype jstring = Undefined | Null | Str string

text \<open>
  Truthiness, as \<^verbatim>\<open>!!v\<close>, \<^verbatim>\<open>!v\<close> and \<^verbatim>\<open>a && b\<close> read it: \<^verbatim>\<open>undefined\<close>,
  \<^verbatim>\<open>null\<close>, the empty string, \<^verbatim>\<open>false\<close> and the number 0 are falsy.
\<close>

definition truthy_string :: "jstring \<Rightarrow> bool" where
  "truthy_string v = (case v of Undefined \<Rightarrow> False | Null \<Rightarrow> False | Str s \<Rightarrow> s \<noteq> [])"

definition truthy_boolean :: "bool option \<Rightarrow> bool" where
  "truthy_boolean v = (case v of None \<Rightarrow> False | Some b \<Rightarrow> b)"

definition truthy_number :: "int \<Rightarrow> bool" where
  "truthy_number n = (n \<noteq> 0)"

text \<open>
  A property key is a string: \<^verbatim>\<open>book[null]\<close> reads the property named \<^verbatim>\<open>"null"\<close>,
  \<^verbatim>\<open>book[undefined]\<close> the property named \<^verbatim>\<open>"undefined"\<close>.
\<close>

definition property_key :: "jstring \<Rightarrow> string" where
  "property_key k = (case k of Undefined \<Rightarrow> ''undefined'' | Null \<Rightarrow> ''null'' | Str s \<Rightarrow> s)"

text \<open>
  A decoded JSON object is a map of its own properties, and its prototype is
  \<^verbatim>\<open>Object.prototype\<close>. Reading \<^verbatim>\<open>obj[k]\<close> gives the own property when there is one;
  otherwise the property \<^verbatim>\<open>Object.prototype\<close> has under that name, which is a function
  (for \<^verbatim>\<open>__proto__\<close>, the prototype object itself) and never \<^verbatim>\<open>undefined\<close>; otherwise
  \<^verbatim>\<open>undefined\<close>.
\<close>

definition Object_prototype_keys :: "string list" where
  "Object_prototype_keys =
     [''constructor'', ''hasOwnProperty'', ''isPrototypeOf'', ''propertyIsEnumerable'',
      ''toLocaleString'', ''toString'', ''valueOf'', ''__proto__'',
      ''__defineGetter__'', ''__defineSetter__'', ''__lookupGetter__'', ''__lookupSetter__'']"

datatype 'a property = Own 'a | Inherited | Absent

definition js_get :: "(string \<rightharpoonup> 'a) \<Rightarrow> string \<Rightarrow> 'a property" where
  "js_get obj k =
     (case obj k of
        Some v \<Rightarrow> Own v
      | None \<Rightarrow> if k \<in> set Object_prototype_keys then Inherited else Absent)"


text \<open>The decimal numeral a template literal writes for a non-negative integer.\<close>

fun decimal :: "nat \<Rightarrow> string" where
  "decimal n =
     (if n < 10 then [''0123456789'' ! n]
      else decimal (n div 10) @ [''0123456789'' ! (n mod 10)])"

declare decimal.simps [simp del]

text \<open>
  \<^verbatim>\<open>Array.prototype.map\<close> with a callback that may throw: the elements are visited in
  order and the first exception ends the loop.
\<close>

fun mapE :: "('a \<Rightarrow> error + 'b) \<Rightarrow> 'a list \<Rightarrow> error + 'b list" where
  "mapE f [] = Inr []"
| "mapE f (x # xs) =
     (case f x of
        Inl e \<Rightarrow> Inl e
      | Inr y \<Rightarrow> (case mapE f xs of Inl e \<Rightarrow> Inl e | Inr ys \<Rightarrow> Inr (y # ys)))"




section \<open>Data model\<close>

datatype ApiNetwork = Mainnet | Testnet

text \<open>
  The raw responses are untyped in the source (\<^verbatim>\<open>any\<close>); the records below hold the
  fields the adapter reads. A message's \<^verbatim>\<open>source\<close> and \<^verbatim>\<open>destination\<close> may be
  \<^verbatim>\<open>null\<close> (an external message) or missing; an event's \<^verbatim>\<open>in_msg\<close> may be \<^verbatim>\<open>null\<close>
  or missing (\<open>None\<close>: reading a property of either throws). The decimal strings
  \<^verbatim>\<open>value\<close> and \<^verbatim>\<open>total_fees\<close> are held as the integers they denote, which is what
  \<^verbatim>\<open>BigInt\<close> reads from them, at any size; \<^verbatim>\<open>now\<close> is an integer number of seconds.
  \<open>exit_code\<close> is \<^verbatim>\<open>description.compute_ph.exit_code\<close>, absent when the compute phase
  reports none.
\<close>

record MessageContent =
  body :: "string option"

record Message =
  source :: jstring
  destination :: jstring
  msg_value :: int
  msg_hash :: string
  message_content :: "MessageContent option"

record RawTransaction =
  now :: int
  lt :: string
  hash :: string
  total_fees :: int
  exit_code :: "int option"
  in_msg :: "Message option"
  out_msgs :: "Message list"

record AddressBookEntry =
  user_friendly :: string

type_synonym AddressBook = "string \<rightharpoonup> AddressBookEntry"

text \<open>
  The normalized record. \<^verbatim>\<open>omitUndefined\<close> drops the top-level properties whose value is
  \<^verbatim>\<open>undefined\<close>; here such a property is \<open>None\<close>: the two addresses (when the book's
  entry has no \<^verbatim>\<open>user_friendly\<close>) and \<^verbatim>\<open>shouldHide\<close>. \<open>extraData_body\<close> is
  \<^verbatim>\<open>extraData.body\<close>.
\<close>

record ApiTransactionExtra =
  txId :: string
  timestamp :: int
  isIncoming :: bool
  fromAddress :: "string option"
  toAddress :: "string option"
  amount :: int
  slug :: string
  fee :: int
  inMsgHash :: string
  normalizedAddress :: string
  shouldHide :: "bool option"
  extraData_body :: "string option"

text \<open>
  What the module imports from files outside \<^verbatim>\<open>src/\<close>: the id codec, the address codec
  (it may throw on a string that is no address), the configuration constants and the
  environment. They are parameters of the model.
\<close>

record Environment =
  apiHeaders :: "string \<rightharpoonup> string"
  tonhttpapiMainnetKey :: "string option"
  tonhttpapiTestnetKey :: "string option"

record Externals =
  stringifyTxId :: "string \<Rightarrow> string \<Rightarrow> string"
  toBase64Address :: "jstring \<Rightarrow> bool \<Rightarrow> ApiNetwork \<Rightarrow> error + string"
  TONCOIN_slug :: string
  TONHTTPAPI_V3_MAINNET_API_URL :: string
  TONHTTPAPI_V3_TESTNET_API_URL :: string
  getEnvironment :: Environment

section \<open>The remote query primitive\<close>

text \<open>
  \<^verbatim>\<open>fetchJson(url, data, init)\<close> is the transport: a parameter, of whatever request and
  response type the endpoint has. The key header is spread in only when the key is truthy,
  and the environment's headers override it.
\<close>

definition callApiV3 ::
  "(string \<Rightarrow> 'q \<Rightarrow> (string \<rightharpoonup> string) \<Rightarrow> error + 'r) \<Rightarrow> Externals \<Rightarrow> ApiNetwork \<Rightarrow> string \<Rightarrow> 'q
     \<Rightarrow> error + 'r" where
  "callApiV3 fetchJson X network path data =
     (let env = getEnvironment X;
          baseUrl = (if network = Testnet then TONHTTPAPI_V3_TESTNET_API_URL X
                     else TONHTTPAPI_V3_MAINNET_API_URL X);
          apiKey = (if network = Testnet then tonhttpapiTestnetKey env
                    else tonhttpapiMainnetKey env)
      in fetchJson (baseUrl @ path) data
           ((case apiKey of
               None \<Rightarrow> Map.empty
             | Some k \<Rightarrow> if truthy_string (Str k) then [''X-Api-Key'' \<mapsto> k] else Map.empty)
              ++ apiHeaders env))"

section \<open>Transaction fetcher\<close>

text \<open>
  \<^verbatim>\<open>msToSec\<close>: \<^verbatim>\<open>Math.floor(ms / 1000)\<close>, on integer milliseconds (floating point
  rounding of the quotient is outside the model). \<open>div\<close> on \<open>int\<close> rounds down, as
  \<^verbatim>\<open>Math.floor\<close> does.
\<close>

definition msToSec :: "int \<Rightarrow> int" where
  "msToSec ms = ms div 1000"

text \<open>
  The conversion as the specification words it, for comparison: integer division with
  truncation toward zero.
\<close>

definition spec_msToSec_truncating :: "int \<Rightarrow> int" where
  "spec_msToSec_truncating ms = sgn ms * (\<bar>ms\<bar> div 1000)"

datatype AddressArg = OneAddress string | ManyAddresses "string list"

record FetchOptions =
  network :: ApiNetwork
  address :: AddressArg
  limit :: int
  fromTimestamp :: "int option"
  toTimestamp :: "int option"
  shouldIncludeFrom :: "bool option"
  shouldIncludeTo :: "bool option"

record TransactionsQuery =
  q_account :: AddressArg
  q_limit :: int
  start_utime :: "int option"
  end_utime :: "int option"
  q_sort :: string

record TransactionsData =
  transactions :: "RawTransaction list"
  address_book :: AddressBook

text \<open>
  The object literal handed to \<^verbatim>\<open>callApiV3\<close> (lines 36 to 42). \<^verbatim>\<open>a && b\<close> is \<^verbatim>\<open>a\<close>
  itself when \<^verbatim>\<open>a\<close> is falsy: an omitted bound stays \<^verbatim>\<open>undefined\<close>, and the number 0
  stays the number 0.
\<close>

definition transactionsQuery :: "FetchOptions \<Rightarrow> TransactionsQuery" where
  "transactionsQuery options =
     \<lparr> q_account = address options,
       q_limit = limit options,
       start_utime =
         (case fromTimestamp options of
            None \<Rightarrow> None
          | Some ms \<Rightarrow>
              if truthy_number ms
              then Some (msToSec ms + (if \<not> truthy_boolean (shouldIncludeFrom options) then 1 else 0))
              else Some ms),
       end_utime =
         (case toTimestamp options of
            None \<Rightarrow> None
          | Some ms \<Rightarrow>
              if truthy_number ms
              then Some (msToSec ms - (if \<not> truthy_boolean (shouldIncludeTo options) then 1 else 0))
              else Some ms),
       q_sort = ''desc'' \<rparr>"

definition getRawBody :: "Message \<Rightarrow> string option" where
  "getRawBody msg = (case message_content msg of None \<Rightarrow> None | Some c \<Rightarrow> body c)"

text \<open>
  \<^verbatim>\<open>addressBook[k].user_friendly\<close> (lines 78 and 79): the entry's string for an own
  entry; \<^verbatim>\<open>undefined\<close> for a key the book lacks but \<^verbatim>\<open>Object.prototype\<close> has, whose
  value has no such property; a \<open>TypeError\<close> for any other key, where the entry itself is
  \<^verbatim>\<open>undefined\<close>.
\<close>

definition user_friendly_of :: "AddressBook \<Rightarrow> jstring \<Rightarrow> error + string option" where
  "user_friendly_of addressBook k =
     (case js_get addressBook (property_key k) of
        Own entry \<Rightarrow> Inr (Some (user_friendly entry))
      | Inherited \<Rightarrow> Inr None
      | Absent \<Rightarrow> Inl TypeError)"

text \<open>
  The callback of \<^verbatim>\<open>msgs.map\<close> in \<^verbatim>\<open>parseRawTransaction\<close> (lines 76 to 98), with the
  variables it closes over as arguments: \<open>n\<close> is \<^verbatim>\<open>msgs.length\<close> and \<open>base\<close> the event's
  \<^verbatim>\<open>txId\<close>. The two address-book reads come first, then the address codec.
\<close>

definition parseMessage ::
  "Externals \<Rightarrow> ApiNetwork \<Rightarrow> RawTransaction \<Rightarrow> AddressBook \<Rightarrow> string \<Rightarrow> bool \<Rightarrow> string \<Rightarrow> nat
     \<Rightarrow> nat \<times> Message \<Rightarrow> error + ApiTransactionExtra" where
  "parseMessage X net rawTx addressBook base incoming inHash n im =
     (case im of (i, msg) \<Rightarrow>
       (case user_friendly_of addressBook (source msg) of
          Inl e \<Rightarrow> Inl e
        | Inr fromAddr \<Rightarrow>
       (case user_friendly_of addressBook (destination msg) of
          Inl e \<Rightarrow> Inl e
        | Inr toAddr \<Rightarrow>
       (case toBase64Address X (if incoming then source msg else destination msg) True net of
          Inl e \<Rightarrow> Inl e
        | Inr normalized \<Rightarrow>
            Inr \<lparr> txId = (if n > 1 then base @ '':'' @ decimal (i + 1) else base),
                  timestamp = now rawTx * 1000,
                  isIncoming = incoming,
                  fromAddress = fromAddr,
                  toAddress = toAddr,
                  amount = (if incoming then msg_value msg else - msg_value msg),
                  slug = TONCOIN_slug X,
                  fee = total_fees rawTx,
                  inMsgHash = inHash,
                  normalizedAddress = normalized,
                  shouldHide =
                    (case exit_code rawTx of
                       None \<Rightarrow> None
                     | Some c \<Rightarrow> if truthy_number c then Some True else None),
                  extraData_body = getRawBody msg \<rparr>))))"

definition parseRawTransaction ::
  "Externals \<Rightarrow> ApiNetwork \<Rightarrow> RawTransaction \<Rightarrow> AddressBook \<Rightarrow> error + ApiTransactionExtra list" where
  "parseRawTransaction X net rawTx addressBook =
     (case in_msg rawTx of
        None \<Rightarrow> Inl TypeError
      | Some inMsg \<Rightarrow>
          (let base = stringifyTxId X (lt rawTx) (hash rawTx);
               incoming = truthy_string (source inMsg);
               inHash = msg_hash inMsg;
               msgs = (if incoming then [inMsg] else out_msgs rawTx)
           in if msgs = [] then Inr []
              else mapE (parseMessage X net rawTx addressBook base incoming inHash (length msgs))
                     (enumerate 0 msgs)))"

text \<open>
  \<^verbatim>\<open>fetchTransactions\<close>: one query, then every event in the order received, flattened.
\<close>

definition fetchTransactions ::
  "(string \<Rightarrow> TransactionsQuery \<Rightarrow> (string \<rightharpoonup> string) \<Rightarrow> error + TransactionsData) \<Rightarrow> Externals
     \<Rightarrow> FetchOptions \<Rightarrow> error + ApiTransactionExtra list" where
  "fetchTransactions fetchJson X options =
     (case callApiV3 fetchJson X (network options) ''/transactions'' (transactionsQuery options) of
        Inl e \<Rightarrow> Inl e
      | Inr data \<Rightarrow>
          (let rawTransactions = transactions data;
               addressBook = address_book data
           in if rawTransactions = [] then Inr []
              else (case mapE (\<lambda>rawTx. parseRawTransaction X (network options) rawTx addressBook)
                           rawTransactions of
                      Inl e \<Rightarrow> Inl e
                    | Inr rss \<Rightarrow> Inr (concat rss))))"

section \<open>Address resolver\<close>





text \<open>
  \<^verbatim>\<open>fixAddressFormat\<close>: the response is declared as an object with an \<^verbatim>\<open>address_book\<close>
  of strings. A response without that property makes the read of line 138 throw; otherwise
  the value read under the address is returned as it is: the own entry, an inherited
  property of \<^verbatim>\<open>Object.prototype\<close>, or \<^verbatim>\<open>undefined\<close>.
\<close>

record AddressFormatData =
  result_address_book :: "(string \<rightharpoonup> string) option"

definition fixAddressFormat ::
  "(string \<Rightarrow> string \<Rightarrow> (string \<rightharpoonup> string) \<Rightarrow> error + AddressFormatData) \<Rightarrow> Externals \<Rightarrow> ApiNetwork
     \<Rightarrow> string \<Rightarrow> error + string property" where
  "fixAddressFormat fetchJson X net addr =
     (case callApiV3 fetchJson X net ''/addressBook'' addr of
        Inl e \<Rightarrow> Inl e
      | Inr result \<Rightarrow>
          (case result_address_book result of
             None \<Rightarrow> Inl TypeError
           | Some book \<Rightarrow> Inr (js_get book addr)))"

text \<open>
  The relevant message list of an event: the local \<^verbatim>\<open>msgs\<close> of
  \<^verbatim>\<open>parseRawTransaction\<close> (lines 70 to 72), for an event that has an inbound message.
\<close>

definition relevantMsgs :: "RawTransaction \<Rightarrow> Message list" where
  "relevantMsgs rawTx =
     (case in_msg rawTx of
        None \<Rightarrow> []
      | Some inMsg \<Rightarrow> if truthy_string (source inMsg) then [inMsg] else out_msgs rawTx)"

text \<open>
  A message every step of the callback succeeds on: neither address-book read throws, and
  the address codec accepts the counterparty. An event every step of
  \<^verbatim>\<open>parseRawTransaction\<close> succeeds on: it has an inbound message and each of its relevant
  messages is such a message.
\<close>

definition message_resolves :: "Externals \<Rightarrow> ApiNetwork \<Rightarrow> AddressBook \<Rightarrow> bool \<Rightarrow> Message \<Rightarrow> bool" where
  "message_resolves X net addressBook incoming msg =
     (js_get addressBook (property_key (source msg)) \<noteq> Absent
      \<and> js_get addressBook (property_key (destination msg)) \<noteq> Absent
      \<and> \<not> isl (toBase64Address X (if incoming then source msg else destination msg) True net))"

definition resolvable :: "Externals \<Rightarrow> ApiNetwork \<Rightarrow> AddressBook \<Rightarrow> RawTransaction \<Rightarrow> bool" where
  "resolvable X net addressBook rawTx =
     (case in_msg rawTx of
        None \<Rightarrow> False
      | Some inMsg \<Rightarrow>
          list_all (message_resolves X net addressBook (truthy_string (source inMsg)))
            (relevantMsgs rawTx))"

section \<open>Example inputs\<close>

text \<open>
  Concrete collaborators, events and responses on which the theorems below are run: an id
  codec that joins logical time and hash with a colon, an address codec that returns the raw
  address, a wallet \<^verbatim>\<open>0:W\<close> with two counterparties, and a transport that answers every
  query with a fixed page.
\<close>

definition ex_X :: Externals where
  "ex_X = \<lparr> stringifyTxId = (\<lambda>l h. l @ '':'' @ h),
            toBase64Address = (\<lambda>a bounceable net. case a of Str s \<Rightarrow> Inr s | _ \<Rightarrow> Inl TypeError),
            TONCOIN_slug = ''toncoin'',
            TONHTTPAPI_V3_MAINNET_API_URL = ''https://toncenter.com/api/v3'',
            TONHTTPAPI_V3_TESTNET_API_URL = ''https://testnet.toncenter.com/api/v3'',
            getEnvironment = \<lparr> apiHeaders = Map.empty, tonhttpapiMainnetKey = None,
                               tonhttpapiTestnetKey = None \<rparr> \<rparr>"

definition ex_book :: AddressBook where
  "ex_book = [''0:A'' \<mapsto> \<lparr> user_friendly = ''EQA'' \<rparr>,
              ''0:B'' \<mapsto> \<lparr> user_friendly = ''EQB'' \<rparr>,
              ''0:W'' \<mapsto> \<lparr> user_friendly = ''EQW'' \<rparr>]"

definition ex_msg :: "jstring \<Rightarrow> jstring \<Rightarrow> int \<Rightarrow> Message" where
  "ex_msg s d v = \<lparr> source = s, destination = d, msg_value = v, msg_hash = ''mh'',
                    message_content = None \<rparr>"

definition ex_event :: "Message option \<Rightarrow> Message list \<Rightarrow> RawTransaction" where
  "ex_event i os = \<lparr> now = 1700000000, lt = ''42'', hash = ''abc'', total_fees = 9,
                     exit_code = Some 0, in_msg = i, out_msgs = os \<rparr>"

definition ex_outgoing :: RawTransaction where
  "ex_outgoing = ex_event (Some (ex_msg Null (Str ''0:W'') 0))
                   [ex_msg (Str ''0:W'') (Str ''0:A'') 3, ex_msg (Str ''0:W'') (Str ''0:B'') 7]"

definition ex_incoming :: "int \<Rightarrow> RawTransaction" where
  "ex_incoming v = ex_event (Some (ex_msg (Str ''0:A'') (Str ''0:W'') v))
                     [ex_msg (Str ''0:W'') (Str ''0:B'') 1]"

definition ex_options :: "int option \<Rightarrow> bool option \<Rightarrow> int option \<Rightarrow> bool option \<Rightarrow> FetchOptions" where
  "ex_options f fi t ti = \<lparr> network = Mainnet, address = OneAddress ''0:W'', limit = 20,
                             fromTimestamp = f, toTimestamp = t,
                             shouldIncludeFrom = fi, shouldIncludeTo = ti \<rparr>"

definition ex_service :: "RawTransaction list \<Rightarrow> AddressBook \<Rightarrow> string \<Rightarrow> TransactionsQuery
     \<Rightarrow> (string \<rightharpoonup> string) \<Rightarrow> error + TransactionsData" where
  "ex_service txs book url q hdrs = Inr \<lparr> transactions = txs, address_book = book \<rparr>"

definition ex_record :: "nat \<Rightarrow> string \<Rightarrow> string \<Rightarrow> int \<Rightarrow> ApiTransactionExtra" where
  "ex_record k to norm a =
     \<lparr> txId = ''42:abc:'' @ decimal k, timestamp = 1700000000000, isIncoming = False,
       fromAddress = Some ''EQW'', toAddress = Some to, amount = a, slug = ''toncoin'', fee = 9,
       inMsgHash = ''mh'', normalizedAddress = norm, shouldHide = None,
       extraData_body = None \<rparr>"

text \<open>An address book that lacks the counterparty \<^verbatim>\<open>0:A\<close>.\<close>

definition ex_book_without_A :: AddressBook where
  "ex_book_without_A = [''0:B'' \<mapsto> \<lparr> user_friendly = ''EQB'' \<rparr>,
                        ''0:W'' \<mapsto> \<lparr> user_friendly = ''EQW'' \<rparr>]"

text \<open>A transport for \<^verbatim>\<open>fixAddressFormat\<close> that answers with a fixed response, with or without an address book.\<close>

definition ex_format_service :: "(string \<rightharpoonup> string) option \<Rightarrow> string \<Rightarrow> string \<Rightarrow> (string \<rightharpoonup> string)
     \<Rightarrow> error + AddressFormatData" where
  "ex_format_service book url addr hdrs = Inr \<lparr> result_address_book = book \<rparr>"



text \<open>
  An outgoing event whose inbound message has the empty string as source, and an incoming
  event whose source is the string \<^verbatim>\<open>constructor\<close>, a name that every object inherits
  from \<^verbatim>\<open>Object.prototype\<close> and that the example book does not hold.
\<close>

definition ex_empty_source :: RawTransaction where
  "ex_empty_source = ex_event (Some (ex_msg (Str []) (Str ''0:W'') 0))
                       [ex_msg (Str ''0:W'') (Str ''0:A'') 4]"

definition ex_inherited :: RawTransaction where
  "ex_inherited = ex_event (Some (ex_msg (Str ''constructor'') (Str ''0:W'') 5)) []"



section \<open>Auxiliary facts\<close>

lemmas ex_defs = ex_X_def ex_book_def ex_msg_def ex_event_def ex_outgoing_def ex_incoming_def
  ex_options_def ex_service_def

lemmas run_defs = fetchTransactions_def callApiV3_def parseRawTransaction_def parseMessage_def
  user_friendly_of_def js_get_def Object_prototype_keys_def
  transactionsQuery_def truthy_string_def truthy_number_def truthy_boolean_def property_key_def
  getRawBody_def msToSec_def enumerate_eq_zip Let_def


lemma decimal_small:
  "decimal (Suc 0) = ''1''" "decimal (Suc (Suc 0)) = ''2''" "decimal 1 = ''1''" "decimal 2 = ''2''"
  by (simp_all add: decimal.simps[of "Suc 0"] decimal.simps[of "Suc (Suc 0)"]
        decimal.simps[of 1] decimal.simps[of 2])


lemma mapE_Inr_iff: "mapE f xs = Inr ys \<longleftrightarrow> list_all2 (\<lambda>x y. f x = Inr y) xs ys"
proof (induction xs arbitrary: ys)
  case Nil
  then show ?case by auto
next
  case (Cons x xs)
  show ?case
  proof (cases "f x")
    case (Inl e)
    then show ?thesis by (auto simp: list_all2_Cons1)
  next
    case (Inr y)
    then show ?thesis using Cons.IH
      by (cases "mapE f xs") (auto simp: list_all2_Cons1)
  qed
qed

lemma mapE_Inl_source: "mapE f xs = Inl e \<Longrightarrow> \<exists>x\<in>set xs. f x = Inl e"
  by (induction xs) (auto split: sum.splits)

lemma mapE_fails: "x \<in> set xs \<Longrightarrow> f x = Inl e \<Longrightarrow> \<exists>e'. mapE f xs = Inl e'"
  by (induction xs) (auto split: sum.splits)

lemma mapE_total: "(\<And>x. x \<in> set xs \<Longrightarrow> \<exists>y. f x = Inr y) \<Longrightarrow> \<exists>ys. mapE f xs = Inr ys"
  by (induction xs) (fastforce split: sum.splits)+

lemma parseMessage_Inr:
  assumes "parseMessage X net tx ab base inc inHash n (i, msg) = Inr r"
  shows "txId r = (if n > 1 then base @ '':'' @ decimal (i + 1) else base)"
    and "timestamp r = now tx * 1000"
    and "isIncoming r = inc"
    and "amount r = (if inc then msg_value msg else - msg_value msg)"
    and "fee r = total_fees tx"
    and "inMsgHash r = inHash"
    and "extraData_body r = getRawBody msg"
    and "user_friendly_of ab (source msg) = Inr (fromAddress r)"
    and "user_friendly_of ab (destination msg) = Inr (toAddress r)"
  using assms by (auto simp: parseMessage_def split: sum.splits)

lemma user_friendly_of_Inl:
  "user_friendly_of ab k = Inl e \<longleftrightarrow> e = TypeError \<and> js_get ab (property_key k) = Absent"
  by (auto simp: user_friendly_of_def split: property.splits)

lemma user_friendly_of_None:
  "user_friendly_of ab k = Inr None \<longleftrightarrow> js_get ab (property_key k) = Inherited"
  by (auto simp: user_friendly_of_def split: property.splits)

lemma js_get_Own: "js_get obj k = Own v \<longleftrightarrow> obj k = Some v"
  by (auto simp: js_get_def split: option.splits)

lemma js_get_Absent:
  "js_get obj k = Absent \<longleftrightarrow> obj k = None \<and> k \<notin> set Object_prototype_keys"
  by (auto simp: js_get_def split: option.splits)

lemma js_get_Inherited:
  "js_get obj k = Inherited \<longleftrightarrow> obj k = None \<and> k \<in> set Object_prototype_keys"
  by (auto simp: js_get_def split: option.splits)

lemma parseMessage_missing:
  assumes "js_get ab (property_key (source msg)) = Absent
             \<or> js_get ab (property_key (destination msg)) = Absent"
  shows "parseMessage X net tx ab base inc inHash n (i, msg) = Inl TypeError"
proof (cases "user_friendly_of ab (source msg)")
  case (Inl e)
  then have "e = TypeError" by (simp add: user_friendly_of_Inl)
  with Inl show ?thesis by (simp add: parseMessage_def)
next
  case (Inr a)
  with assms have "user_friendly_of ab (destination msg) = Inl TypeError"
    by (auto simp: user_friendly_of_def split: property.splits)
  with Inr show ?thesis by (simp add: parseMessage_def)
qed

lemma parseRawTransaction_msgs:
  assumes "in_msg tx = Some m"
  shows "parseRawTransaction X net tx ab =
           mapE (parseMessage X net tx ab (stringifyTxId X (lt tx) (hash tx))
                   (truthy_string (source m)) (msg_hash m) (length (relevantMsgs tx)))
             (enumerate 0 (relevantMsgs tx))"
  using assms by (simp add: parseRawTransaction_def relevantMsgs_def Let_def enumerate_eq_zip)

lemma parseRawTransaction_no_in_msg:
  "in_msg tx = None \<Longrightarrow> parseRawTransaction X net tx ab = Inl TypeError"
  by (simp add: parseRawTransaction_def)

lemma parseRawTransaction_Inr:
  assumes "parseRawTransaction X net tx ab = Inr rs"
  shows "\<exists>m. in_msg tx = Some m
           \<and> length rs = length (relevantMsgs tx)
           \<and> (\<forall>i<length rs.
                 parseMessage X net tx ab (stringifyTxId X (lt tx) (hash tx))
                   (truthy_string (source m)) (msg_hash m) (length (relevantMsgs tx))
                   (i, relevantMsgs tx ! i) = Inr (rs ! i))"
proof -
  from assms obtain m where m: "in_msg tx = Some m"
    by (cases "in_msg tx") (auto simp: parseRawTransaction_no_in_msg)
  let ?f = "parseMessage X net tx ab (stringifyTxId X (lt tx) (hash tx))
             (truthy_string (source m)) (msg_hash m) (length (relevantMsgs tx))"
  from assms m have all2: "list_all2 (\<lambda>x y. ?f x = Inr y) (enumerate 0 (relevantMsgs tx)) rs"
    by (simp add: parseRawTransaction_msgs mapE_Inr_iff)
  then have len: "length rs = length (relevantMsgs tx)"
    by (auto dest: list_all2_lengthD)
  have "?f (i, relevantMsgs tx ! i) = Inr (rs ! i)" if "i < length rs" for i
    using list_all2_nthD[OF all2, of i] that len by (simp add: nth_enumerate_eq)
  with m len show ?thesis by blast
qed

lemma parseMessage_total:
  assumes "message_resolves X net ab inc msg"
  shows "\<exists>r. parseMessage X net tx ab base inc inHash n (i, msg) = Inr r"
proof -
  from assms obtain fa where fa: "user_friendly_of ab (source msg) = Inr fa"
    by (cases "user_friendly_of ab (source msg)")
       (auto simp: message_resolves_def user_friendly_of_Inl)
  from assms obtain ta where ta: "user_friendly_of ab (destination msg) = Inr ta"
    by (cases "user_friendly_of ab (destination msg)")
       (auto simp: message_resolves_def user_friendly_of_Inl)
  from assms obtain na where
    "toBase64Address X (if inc then source msg else destination msg) True net = Inr na"
    by (cases "toBase64Address X (if inc then source msg else destination msg) True net")
       (auto simp: message_resolves_def)
  with fa ta show ?thesis by (simp add: parseMessage_def)
qed

lemma parseMessage_Inr_resolves:
  assumes "parseMessage X net tx ab base inc inHash n (i, msg) = Inr r"
  shows "message_resolves X net ab inc msg"
  using assms
  by (auto simp: parseMessage_def message_resolves_def user_friendly_of_def
           split: sum.splits property.splits)

lemma parseMessage_Inl:
  assumes "parseMessage X net tx ab base inc inHash n (i, msg) = Inl e"
  shows "e = TypeError \<or> toBase64Address X (if inc then source msg else destination msg) True net = Inl e"
  using assms by (auto simp: parseMessage_def user_friendly_of_Inl split: sum.splits)

lemma in_set_enumerate_snd: "(i, x) \<in> set (enumerate n xs) \<Longrightarrow> x \<in> set xs"
  by (auto simp: in_set_enumerate_eq)

lemma parseRawTransaction_total:
  assumes "resolvable X net ab tx"
  shows "\<exists>rs. parseRawTransaction X net tx ab = Inr rs"
proof -
  from assms obtain m where m: "in_msg tx = Some m"
    by (cases "in_msg tx") (auto simp: resolvable_def)
  let ?f = "parseMessage X net tx ab (stringifyTxId X (lt tx) (hash tx))
             (truthy_string (source m)) (msg_hash m) (length (relevantMsgs tx))"
  have "\<exists>r. ?f im = Inr r" if "im \<in> set (enumerate 0 (relevantMsgs tx))" for im
  proof -
    obtain i msg where im: "im = (i, msg)" by (cases im)
    with that have "msg \<in> set (relevantMsgs tx)" by (auto dest: in_set_enumerate_snd)
    with assms m show ?thesis unfolding im
      by (intro parseMessage_total) (auto simp: resolvable_def list_all_iff)
  qed
  then have "\<exists>rs. mapE ?f (enumerate 0 (relevantMsgs tx)) = Inr rs"
    by (rule mapE_total)
  with m show ?thesis by (simp add: parseRawTransaction_msgs)
qed

lemma parseRawTransaction_shared:
  assumes "parseRawTransaction X net tx ab = Inr rs" and "r \<in> set rs"
  shows "timestamp r = now tx * 1000" and "fee r = total_fees tx"
    and "prefix (stringifyTxId X (lt tx) (hash tx)) (txId r)"
proof -
  from parseRawTransaction_Inr[OF assms(1)]
  obtain m where "in_msg tx = Some m"
    and each: "\<And>i. i < length rs \<Longrightarrow>
           parseMessage X net tx ab (stringifyTxId X (lt tx) (hash tx))
             (truthy_string (source m)) (msg_hash m) (length (relevantMsgs tx))
             (i, relevantMsgs tx ! i) = Inr (rs ! i)"
    by blast
  from assms(2) obtain i where i: "i < length rs" "r = rs ! i"
    by (auto simp: in_set_conv_nth)
  note pm = parseMessage_Inr[OF each[OF i(1)]]
  from pm(2) i show "timestamp r = now tx * 1000" by simp
  from pm(5) i show "fee r = total_fees tx" by simp
  from pm(1) i show "prefix (stringifyTxId X (lt tx) (hash tx)) (txId r)" by simp
qed

lemma parseRawTransaction_length:
  "parseRawTransaction X net tx ab = Inr rs \<Longrightarrow> length rs = length (relevantMsgs tx)"
  using parseRawTransaction_Inr by blast

lemma fetchTransactions_Inr_iff:
  assumes "callApiV3 fetchJson X (network options) ''/transactions'' (transactionsQuery options) = Inr data"
  shows "fetchTransactions fetchJson X options = Inr rs \<longleftrightarrow>
           (\<exists>rss. rs = concat rss
              \<and> list_all2 (\<lambda>tx rs'. parseRawTransaction X (network options) tx (address_book data) = Inr rs')
                  (transactions data) rss)"
proof -
  let ?f = "\<lambda>tx. parseRawTransaction X (network options) tx (address_book data)"
  have "fetchTransactions fetchJson X options = Inr rs \<longleftrightarrow>
          (\<exists>rss. mapE ?f (transactions data) = Inr rss \<and> rs = concat rss)"
    using assms
    by (cases "mapE ?f (transactions data)"; cases "transactions data = []")
       (auto simp: fetchTransactions_def Let_def)
  then show ?thesis
    by (auto simp: mapE_Inr_iff)
qed

lemma fetchTransactions_total:
  assumes "callApiV3 fetchJson X (network options) ''/transactions'' (transactionsQuery options) = Inr data"
    and "\<And>tx. tx \<in> set (transactions data) \<Longrightarrow> resolvable X (network options) (address_book data) tx"
  shows "\<exists>rs. fetchTransactions fetchJson X options = Inr rs"
proof -
  have "\<exists>rss. mapE (\<lambda>tx. parseRawTransaction X (network options) tx (address_book data)) (transactions data) = Inr rss"
    by (rule mapE_total) (auto intro: parseRawTransaction_total assms(2))
  with assms(1) show ?thesis
    by (auto simp: fetchTransactions_def Let_def)
qed

lemma call_ex_service:
  "callApiV3 (ex_service txs book) ex_X net path q = Inr \<lparr> transactions = txs, address_book = book \<rparr>"
  by (simp add: callApiV3_def ex_service_def Let_def)

lemma network_ex_options: "network (ex_options f fi t ti) = Mainnet"
  by (simp add: ex_options_def)

lemma relevantMsgs_nonempty_in_msg: "msg \<in> set (relevantMsgs tx) \<Longrightarrow> \<exists>m. in_msg tx = Some m"
  by (cases "in_msg tx") (auto simp: relevantMsgs_def)

lemma parseRawTransaction_missing:
  assumes "msg \<in> set (relevantMsgs tx)"
    and "js_get ab (property_key (source msg)) = Absent
           \<or> js_get ab (property_key (destination msg)) = Absent"
  shows "\<exists>e. parseRawTransaction X net tx ab = Inl e"
proof -
  from assms(1) obtain m where m: "in_msg tx = Some m"
    by (auto dest: relevantMsgs_nonempty_in_msg)
  from assms(1) obtain i where i: "i < length (relevantMsgs tx)" "relevantMsgs tx ! i = msg"
    by (auto simp: in_set_conv_nth)
  then have mem: "(i, msg) \<in> set (enumerate 0 (relevantMsgs tx))"
    by (auto simp: in_set_enumerate_eq)
  let ?f = "parseMessage X net tx ab (stringifyTxId X (lt tx) (hash tx))
             (truthy_string (source m)) (msg_hash m) (length (relevantMsgs tx))"
  have "?f (i, msg) = Inl TypeError"
    using assms(2) by (rule parseMessage_missing)
  with mem have "\<exists>e. mapE ?f (enumerate 0 (relevantMsgs tx)) = Inl e"
    by (rule mapE_fails)
  with m show ?thesis by (simp add: parseRawTransaction_msgs)
qed

lemma parseRawTransaction_Inl:
  assumes "parseRawTransaction X net tx ab = Inl e"
  shows "e = TypeError \<or> (\<exists>a. toBase64Address X a True net = Inl e)"
proof (cases "in_msg tx")
  case None
  with assms show ?thesis by (simp add: parseRawTransaction_no_in_msg)
next
  case (Some m)
  with assms obtain im where
    "parseMessage X net tx ab (stringifyTxId X (lt tx) (hash tx))
       (truthy_string (source m)) (msg_hash m) (length (relevantMsgs tx)) im = Inl e"
    by (auto simp: parseRawTransaction_msgs dest: mapE_Inl_source)
  then show ?thesis
    by (cases im) (auto dest: parseMessage_Inl)
qed

lemma fetchTransactions_Inl:
  assumes "callApiV3 fetchJson X (network options) ''/transactions'' (transactionsQuery options) = Inr data"
    and "fetchTransactions fetchJson X options = Inl e"
  shows "\<exists>tx\<in>set (transactions data). parseRawTransaction X (network options) tx (address_book data) = Inl e"
proof -
  let ?f = "\<lambda>tx. parseRawTransaction X (network options) tx (address_book data)"
  from assms have "mapE ?f (transactions data) = Inl e"
    by (cases "mapE ?f (transactions data)"; cases "transactions data = []")
       (auto simp: fetchTransactions_def Let_def)
  then show ?thesis by (rule mapE_Inl_source)
qed

lemma fetchTransactions_fails:
  assumes "callApiV3 fetchJson X (network options) ''/transactions'' (transactionsQuery options) = Inr data"
    and "tx \<in> set (transactions data)"
    and "parseRawTransaction X (network options) tx (address_book data) = Inl e"
  shows "\<exists>e'. fetchTransactions fetchJson X options = Inl e'"
proof -
  let ?f = "\<lambda>tx. parseRawTransaction X (network options) tx (address_book data)"
  from assms(2,3) have "\<exists>e'. mapE ?f (transactions data) = Inl e'"
    by (rule mapE_fails)
  moreover from assms(2) have "transactions data \<noteq> []" by auto
  ultimately show ?thesis using assms(1)
    by (auto simp: fetchTransactions_def Let_def)
qed

lemma parseRawTransaction_fields:
  assumes "parseRawTransaction X net tx ab = Inr rs" and "in_msg tx = Some m"
  shows "map isIncoming rs = map (\<lambda>msg. truthy_string (source m)) (relevantMsgs tx)"
    and "map amount rs = map (\<lambda>msg. if truthy_string (source m) then msg_value msg else - msg_value msg)
                           (relevantMsgs tx)"
    and "map extraData_body rs = map getRawBody (relevantMsgs tx)"
proof -
  from parseRawTransaction_Inr[OF assms(1)] assms(2)
  have len: "length rs = length (relevantMsgs tx)"
    and each: "\<And>i. i < length rs \<Longrightarrow>
           parseMessage X net tx ab (stringifyTxId X (lt tx) (hash tx))
             (truthy_string (source m)) (msg_hash m) (length (relevantMsgs tx))
             (i, relevantMsgs tx ! i) = Inr (rs ! i)"
    by auto
  show "map isIncoming rs = map (\<lambda>msg. truthy_string (source m)) (relevantMsgs tx)"
    using len parseMessage_Inr(3)[OF each] by (intro nth_equalityI) simp_all
  show "map amount rs = map (\<lambda>msg. if truthy_string (source m) then msg_value msg else - msg_value msg)
                           (relevantMsgs tx)"
    using len parseMessage_Inr(4)[OF each] by (intro nth_equalityI) simp_all
  show "map extraData_body rs = map getRawBody (relevantMsgs tx)"
    using len parseMessage_Inr(7)[OF each] by (intro nth_equalityI) simp_all
qed

lemma relevantMsgs_out_msgs_update:
  assumes "in_msg tx = Some m" and "truthy_string (source m)"
  shows "parseRawTransaction X net (tx\<lparr>out_msgs := os\<rparr>) ab = parseRawTransaction X net tx ab"
  using assms
  by (auto simp: parseRawTransaction_def parseMessage_def Let_def split: sum.splits)

lemma fetchTransactions_events:
  assumes "callApiV3 fetchJson X (network options) ''/transactions'' (transactionsQuery options) = Inr data"
    and "fetchTransactions fetchJson X options = Inr rs"
    and "\<And>tx rs'. parseRawTransaction X (network options) tx (address_book data) = Inr rs' \<Longrightarrow> P tx rs'"
  shows "\<exists>rss. rs = concat rss \<and> list_all2 P (transactions data) rss"
proof -
  from assms(2) obtain rss where rs: "rs = concat rss"
    and all2: "list_all2 (\<lambda>tx rs'. parseRawTransaction X (network options) tx (address_book data) = Inr rs')
                 (transactions data) rss"
    unfolding fetchTransactions_Inr_iff[OF assms(1)] by blast
  from all2 have "list_all2 P (transactions data) rss"
    by (rule list_all2_mono) (rule assms(3))
  with rs show ?thesis by blast
qed

lemma parseRawTransaction_amounts:
  assumes "parseRawTransaction X net tx ab = Inr rs" and "i < length rs"
  shows "amount (rs ! i) = (if isIncoming (rs ! i) then msg_value (relevantMsgs tx ! i)
                           else - msg_value (relevantMsgs tx ! i))"
proof -
  from parseRawTransaction_Inr[OF assms(1)] assms(2) obtain m where "in_msg tx = Some m" and
    "parseMessage X net tx ab (stringifyTxId X (lt tx) (hash tx))
       (truthy_string (source m)) (msg_hash m) (length (relevantMsgs tx))
       (i, relevantMsgs tx ! i) = Inr (rs ! i)"
    by blast
  from parseMessage_Inr(3,4)[OF this(2)] show ?thesis by simp
qed

lemma run_ex_outgoing:
  "fetchTransactions (ex_service [ex_outgoing] ex_book) ex_X (ex_options None None None None)
     = Inr [ex_record 1 ''EQA'' ''0:A'' (- 3), ex_record 2 ''EQB'' ''0:B'' (- 7)]"
  by (simp add: ex_defs ex_record_def run_defs decimal_small)

lemma parseRawTransaction_ids:
  assumes "parseRawTransaction X net rawTx addressBook = Inr rs"
  shows "length rs = length (relevantMsgs rawTx)
     \<and> (length rs = 1 \<longrightarrow> map txId rs = [stringifyTxId X (lt rawTx) (hash rawTx)])
     \<and> (1 < length rs \<longrightarrow>
          (\<forall>i<length rs. txId (rs ! i)
               = stringifyTxId X (lt rawTx) (hash rawTx) @ '':'' @ decimal (i + 1)))"
proof -
  from parseRawTransaction_Inr[OF assms]
  obtain m where "in_msg rawTx = Some m" and len: "length rs = length (relevantMsgs rawTx)"
    and each: "\<And>i. i < length rs \<Longrightarrow>
           parseMessage X net rawTx addressBook (stringifyTxId X (lt rawTx) (hash rawTx))
             (truthy_string (source m)) (msg_hash m) (length (relevantMsgs rawTx))
             (i, relevantMsgs rawTx ! i) = Inr (rs ! i)"
    by blast
  have ids: "txId (rs ! i) =
      (if 1 < length rs then stringifyTxId X (lt rawTx) (hash rawTx) @ '':'' @ decimal (i + 1)
       else stringifyTxId X (lt rawTx) (hash rawTx))" if "i < length rs" for i
    using parseMessage_Inr(1)[OF each[OF that]] len by simp
  have one: "map txId rs = [stringifyTxId X (lt rawTx) (hash rawTx)]" if "length rs = 1"
  proof -
    from that obtain r where r: "rs = [r]" by (cases rs) auto
    with ids[of 0] show ?thesis by simp
  qed
  from len one ids show ?thesis by simp
qed

lemma msToSec_floor: "1000 * msToSec ms \<le> ms \<and> ms < 1000 * msToSec ms + 1000"
  unfolding msToSec_def by presburger

lemma msToSec_truncating: "0 \<le> ms \<Longrightarrow> msToSec ms = spec_msToSec_truncating ms"
  by (cases "ms = 0") (simp_all add: msToSec_def spec_msToSec_truncating_def)

lemma fetchTransactions_query:
  "fetchTransactions fetchJson X options
     = fetchTransactions (\<lambda>url q hdrs. fetchJson url (transactionsQuery options) hdrs) X options"
  by (simp add: fetchTransactions_def callApiV3_def)






















lemma parseRawTransaction_Inr_resolves:
  assumes "parseRawTransaction X net tx ab = Inr rs" and "in_msg tx = Some m"
  shows "\<forall>msg\<in>set (relevantMsgs tx). message_resolves X net ab (truthy_string (source m)) msg"
proof
  fix msg assume "msg \<in> set (relevantMsgs tx)"
  then obtain i where i: "i < length (relevantMsgs tx)" "relevantMsgs tx ! i = msg"
    by (auto simp: in_set_conv_nth)
  from parseRawTransaction_Inr[OF assms(1)] assms(2) i
  have "parseMessage X net tx ab (stringifyTxId X (lt tx) (hash tx))
          (truthy_string (source m)) (msg_hash m) (length (relevantMsgs tx)) (i, msg)
        = Inr (rs ! i)"
    by auto
  then show "message_resolves X net ab (truthy_string (source m)) msg"
    by (rule parseMessage_Inr_resolves)
qed

lemma parseRawTransaction_returns_iff:
  assumes "in_msg tx = Some m"
  shows "(\<exists>rs. parseRawTransaction X net tx ab = Inr rs)
           \<longleftrightarrow> (\<forall>msg\<in>set (relevantMsgs tx). message_resolves X net ab (truthy_string (source m)) msg)"
proof
  assume "\<exists>rs. parseRawTransaction X net tx ab = Inr rs"
  then show "\<forall>msg\<in>set (relevantMsgs tx). message_resolves X net ab (truthy_string (source m)) msg"
    using parseRawTransaction_Inr_resolves[OF _ assms] by blast
next
  assume "\<forall>msg\<in>set (relevantMsgs tx). message_resolves X net ab (truthy_string (source m)) msg"
  with assms have "resolvable X net ab tx"
    by (simp add: resolvable_def list_all_iff)
  then show "\<exists>rs. parseRawTransaction X net tx ab = Inr rs"
    by (rule parseRawTransaction_total)
qed

lemmas resolve_defs = message_resolves_def js_get_def property_key_def truthy_string_def

lemma user_friendly_of_not_own:
  "user_friendly_of ab k = Inr v \<Longrightarrow> ab (property_key k) = None \<Longrightarrow> v = None"
  by (auto simp: user_friendly_of_def js_get_def split: property.splits option.splits if_splits)

lemma parseRawTransaction_missing_field:
  assumes "parseRawTransaction X net tx ab = Inr rs"
    and "msg \<in> set (relevantMsgs tx)"
    and "ab (property_key (source msg)) = None \<or> ab (property_key (destination msg)) = None"
  shows "\<exists>r\<in>set rs. fromAddress r = None \<or> toAddress r = None"
proof -
  from assms(2) obtain i where i: "i < length (relevantMsgs tx)" "relevantMsgs tx ! i = msg"
    by (auto simp: in_set_conv_nth)
  from parseRawTransaction_Inr[OF assms(1)] i obtain m where "in_msg tx = Some m"
    and len: "length rs = length (relevantMsgs tx)"
    and pm: "parseMessage X net tx ab (stringifyTxId X (lt tx) (hash tx))
          (truthy_string (source m)) (msg_hash m) (length (relevantMsgs tx)) (i, msg)
        = Inr (rs ! i)"
    by auto
  from parseMessage_Inr(8,9)[OF pm] assms(3)
  have "fromAddress (rs ! i) = None \<or> toAddress (rs ! i) = None"
    by (auto dest: user_friendly_of_not_own)
  moreover from i len have "rs ! i \<in> set rs" by simp
  ultimately show ?thesis by blast
qed

lemma fetchTransactions_Inr_event:
  assumes "callApiV3 fetchJson X (network options) ''/transactions'' (transactionsQuery options) = Inr data"
    and "fetchTransactions fetchJson X options = Inr rs"
    and "tx \<in> set (transactions data)"
  shows "\<exists>rs'. parseRawTransaction X (network options) tx (address_book data) = Inr rs'
           \<and> set rs' \<subseteq> set rs"
proof -
  from assms(2) obtain rss where rs: "rs = concat rss"
    and all2: "list_all2 (\<lambda>tx rs'. parseRawTransaction X (network options) tx (address_book data) = Inr rs')
                 (transactions data) rss"
    unfolding fetchTransactions_Inr_iff[OF assms(1)] by blast
  from assms(3) obtain j where j: "j < length (transactions data)" "transactions data ! j = tx"
    by (auto simp: in_set_conv_nth)
  with all2 have parsed: "parseRawTransaction X (network options) tx (address_book data) = Inr (rss ! j)"
    and jl: "j < length rss"
    by (auto dest: list_all2_nthD list_all2_lengthD)
  from jl have "rss ! j \<in> set rss" by simp
  then have "set (rss ! j) \<subseteq> set (concat rss)" by auto
  with parsed rs show ?thesis by blast
qed

lemma run_ex_inherited:
  "fetchTransactions (ex_service [ex_inherited] ex_book) ex_X (ex_options None None None None)
     = Inr [\<lparr> txId = ''42:abc'', timestamp = 1700000000000, isIncoming = True,
              fromAddress = None, toAddress = Some ''EQW'', amount = 5, slug = ''toncoin'',
              fee = 9, inMsgHash = ''mh'', normalizedAddress = ''constructor'',
              shouldHide = None, extraData_body = None \<rparr>]"
  by (simp add: ex_defs ex_inherited_def run_defs)

lemma call_ex_format_service:
  "callApiV3 (ex_format_service book) ex_X net path addr = Inr \<lparr> result_address_book = book \<rparr>"
  by (simp add: callApiV3_def ex_format_service_def Let_def)











section \<open>Record identifiers\<close>

text \<open>
  C1, as amended. Every event of the page yields one record per relevant message. When
  there is one, its id is the base id (the id codec's composite of logical time and hash).
  When there are \<open>k > 1\<close>, the record at every position \<open>i\<close>, the first included, has the
  id \<^verbatim>\<open>base:(i+1)\<close>: the first record is \<^verbatim>\<open>base:1\<close>, not the bare base id.
\<close>

theorem C1_record_ids:
  assumes "callApiV3 fetchJson X (network options) ''/transactions'' (transactionsQuery options)
             = Inr data"
    and "fetchTransactions fetchJson X options = Inr rs"
  shows "\<exists>rss. rs = concat rss
           \<and> list_all2
               (\<lambda>tx rs'. length rs' = length (relevantMsgs tx)
                  \<and> (length rs' = 1 \<longrightarrow> map txId rs' = [stringifyTxId X (lt tx) (hash tx)])
                  \<and> (1 < length rs' \<longrightarrow>
                       (\<forall>i<length rs'. txId (rs' ! i)
                            = stringifyTxId X (lt tx) (hash tx) @ '':'' @ decimal (i + 1))))
               (transactions data) rss"
  by (rule fetchTransactions_events[OF assms]) (rule parseRawTransaction_ids)

text \<open>
  The theorem on the page with one outgoing event that has two outbound messages.
\<close>

theorem C1_record_ids_witness:
  "\<exists>rss. [ex_record 1 ''EQA'' ''0:A'' (- 3), ex_record 2 ''EQB'' ''0:B'' (- 7)] = concat rss
           \<and> list_all2
               (\<lambda>tx rs'. length rs' = length (relevantMsgs tx)
                  \<and> (length rs' = 1 \<longrightarrow> map txId rs' = [stringifyTxId ex_X (lt tx) (hash tx)])
                  \<and> (1 < length rs' \<longrightarrow>
                       (\<forall>i<length rs'. txId (rs' ! i)
                            = stringifyTxId ex_X (lt tx) (hash tx) @ '':'' @ decimal (i + 1))))
               [ex_outgoing] rss"
  using C1_record_ids[OF call_ex_service run_ex_outgoing] by simp

text \<open>
  The claim as the specification states it keeps the first of several records unsuffixed.
  On an outgoing event with two outbound messages the ids are \<^verbatim>\<open>42:abc:1\<close> and
  \<^verbatim>\<open>42:abc:2\<close>, while the base id is \<^verbatim>\<open>42:abc\<close>.
\<close>

theorem C1_first_record_suffixed:
  "map_sum id (map txId)
     (fetchTransactions (ex_service [ex_outgoing] ex_book) ex_X (ex_options None None None None))
   = Inr [''42:abc:1'', ''42:abc:2'']
   \<and> stringifyTxId ex_X (lt ex_outgoing) (hash ex_outgoing) = ''42:abc''"
  by (simp add: ex_defs run_defs decimal_small)

section \<open>One record per relevant message\<close>

text \<open>
  C2. When the service answers with a page: a page without events gives the empty sequence
  and no error; when every event's addresses resolve, the call returns; and whenever it
  returns, the result is the concatenation, in page order, of one group of records per
  event, the group of an event holding exactly one record per relevant message (none when
  there is none), all with the event's timestamp (seconds times 1000), its fee and an id
  that starts with its base id. The number of records is the sum of the message counts.
\<close>

theorem C2_one_record_per_message:
  assumes "callApiV3 fetchJson X (network options) ''/transactions'' (transactionsQuery options)
             = Inr data"
  shows "(transactions data = [] \<longrightarrow> fetchTransactions fetchJson X options = Inr [])
     \<and> ((\<forall>tx\<in>set (transactions data). resolvable X (network options) (address_book data) tx)
          \<longrightarrow> (\<exists>rs. fetchTransactions fetchJson X options = Inr rs))
     \<and> (\<forall>rs. fetchTransactions fetchJson X options = Inr rs \<longrightarrow>
          length rs = sum_list (map (\<lambda>tx. length (relevantMsgs tx)) (transactions data))
          \<and> (\<exists>rss. rs = concat rss
                \<and> list_all2
                    (\<lambda>tx rs'. parseRawTransaction X (network options) tx (address_book data) = Inr rs'
                       \<and> length rs' = length (relevantMsgs tx)
                       \<and> (\<forall>r\<in>set rs'. timestamp r = now tx * 1000
                             \<and> fee r = total_fees tx
                             \<and> prefix (stringifyTxId X (lt tx) (hash tx)) (txId r)))
                    (transactions data) rss))"
proof (intro conjI allI impI)
  assume "transactions data = []"
  with assms show "fetchTransactions fetchJson X options = Inr []"
    by (simp add: fetchTransactions_def)
next
  assume "\<forall>tx\<in>set (transactions data). resolvable X (network options) (address_book data) tx"
  with assms show "\<exists>rs. fetchTransactions fetchJson X options = Inr rs"
    by (intro fetchTransactions_total) auto
next
  fix rs
  assume run: "fetchTransactions fetchJson X options = Inr rs"
  let ?P = "\<lambda>tx rs'. parseRawTransaction X (network options) tx (address_book data) = Inr rs'"
  let ?Q = "\<lambda>tx rs'. ?P tx rs' \<and> length rs' = length (relevantMsgs tx)
                       \<and> (\<forall>r\<in>set rs'. timestamp r = now tx * 1000
                             \<and> fee r = total_fees tx
                             \<and> prefix (stringifyTxId X (lt tx) (hash tx)) (txId r))"
  from run obtain rss where rs: "rs = concat rss"
    and all2: "list_all2 ?P (transactions data) rss"
    unfolding fetchTransactions_Inr_iff[OF assms] by blast
  have "?Q tx rs'" if "?P tx rs'" for tx rs'
    using that parseRawTransaction_length[OF that] parseRawTransaction_shared[OF that]
    by blast
  with all2 have all2': "list_all2 ?Q (transactions data) rss"
    by (rule list_all2_mono)
  with rs show "\<exists>rss. rs = concat rss \<and> list_all2 ?Q (transactions data) rss"
    by blast
  from all2' have "list_all2 (\<lambda>tx rs'. length rs' = length (relevantMsgs tx)) (transactions data) rss"
    by (rule list_all2_mono) simp
  then have "map length rss = map (\<lambda>tx. length (relevantMsgs tx)) (transactions data)"
    by (induction rule: list_all2_induct) auto
  with rs show "length rs = sum_list (map (\<lambda>tx. length (relevantMsgs tx)) (transactions data))"
    by (simp add: length_concat)
qed

text \<open>
  The theorem on the empty page, and on a page with an incoming event and an outgoing event
  with two outbound messages: three records.
\<close>

theorem C2_one_record_per_message_witness:
  "fetchTransactions (ex_service [] ex_book) ex_X (ex_options None None None None) = Inr []
   \<and> (\<exists>rs. fetchTransactions (ex_service [ex_incoming 5, ex_outgoing] ex_book) ex_X
               (ex_options None None None None) = Inr rs
          \<and> length rs = 3)"
proof -
  have empty: "fetchTransactions (ex_service [] ex_book) ex_X (ex_options None None None None) = Inr []"
    using C2_one_record_per_message[OF call_ex_service, of "[]" ex_book "ex_options None None None None"]
    by simp
  have ok: "\<forall>tx\<in>set [ex_incoming 5, ex_outgoing]. resolvable ex_X Mainnet ex_book tx"
    by (simp add: resolvable_def message_resolves_def relevantMsgs_def ex_defs truthy_string_def
          property_key_def js_get_def)
  have len: "sum_list (map (\<lambda>tx. length (relevantMsgs tx)) [ex_incoming 5, ex_outgoing]) = 3"
    by (simp add: relevantMsgs_def ex_defs truthy_string_def)
  from C2_one_record_per_message[OF call_ex_service,
      of "[ex_incoming 5, ex_outgoing]" ex_book "ex_options None None None None"] ok len
  have "\<exists>rs. fetchTransactions (ex_service [ex_incoming 5, ex_outgoing] ex_book) ex_X
               (ex_options None None None None) = Inr rs \<and> length rs = 3"
    by (simp add: network_ex_options) metis
  with empty show ?thesis by blast
qed

section \<open>Time bounds\<close>

text \<open>
  C3, as amended. In the query handed to the service (and the service is asked with exactly
  this query): an omitted bound is unset; a non-zero millisecond bound is converted by
  \<open>msToSec\<close>, which is the floor of the quotient by 1000, and agrees with truncation toward
  zero on non-negative bounds; unless \<^verbatim>\<open>shouldIncludeFrom\<close> is true the lower bound is one
  second greater than the converted value, unless \<^verbatim>\<open>shouldIncludeTo\<close> is true the upper
  bound is one second less; a bound equal to 0 is passed as 0, neither converted nor shifted.
\<close>

theorem C3_time_bounds:
  "(fromTimestamp options = None \<longrightarrow> start_utime (transactionsQuery options) = None)
   \<and> (toTimestamp options = None \<longrightarrow> end_utime (transactionsQuery options) = None)
   \<and> (\<forall>ms. fromTimestamp options = Some ms \<and> ms \<noteq> 0 \<longrightarrow>
         start_utime (transactionsQuery options)
           = Some (msToSec ms + (if shouldIncludeFrom options = Some True then 0 else 1)))
   \<and> (\<forall>ms. toTimestamp options = Some ms \<and> ms \<noteq> 0 \<longrightarrow>
         end_utime (transactionsQuery options)
           = Some (msToSec ms - (if shouldIncludeTo options = Some True then 0 else 1)))
   \<and> (fromTimestamp options = Some 0 \<longrightarrow> start_utime (transactionsQuery options) = Some 0)
   \<and> (toTimestamp options = Some 0 \<longrightarrow> end_utime (transactionsQuery options) = Some 0)
   \<and> (\<forall>ms. 1000 * msToSec ms \<le> ms \<and> ms < 1000 * msToSec ms + 1000)
   \<and> (\<forall>ms. 0 \<le> ms \<longrightarrow> msToSec ms = spec_msToSec_truncating ms)
   \<and> fetchTransactions fetchJson X options
       = fetchTransactions (\<lambda>url q hdrs. fetchJson url (transactionsQuery options) hdrs) X options"
proof -
  have from_set: "start_utime (transactionsQuery options)
           = Some (msToSec ms + (if shouldIncludeFrom options = Some True then 0 else 1))"
    if "fromTimestamp options = Some ms" "ms \<noteq> 0" for ms
    using that
    by (cases "shouldIncludeFrom options")
       (auto simp: transactionsQuery_def truthy_number_def truthy_boolean_def)
  have to_set: "end_utime (transactionsQuery options)
           = Some (msToSec ms - (if shouldIncludeTo options = Some True then 0 else 1))"
    if "toTimestamp options = Some ms" "ms \<noteq> 0" for ms
    using that
    by (cases "shouldIncludeTo options")
       (auto simp: transactionsQuery_def truthy_number_def truthy_boolean_def)
  have unset: "fromTimestamp options = None \<longrightarrow> start_utime (transactionsQuery options) = None"
    "toTimestamp options = None \<longrightarrow> end_utime (transactionsQuery options) = None"
    by (simp_all add: transactionsQuery_def)
  have zero: "fromTimestamp options = Some 0 \<longrightarrow> start_utime (transactionsQuery options) = Some 0"
    "toTimestamp options = Some 0 \<longrightarrow> end_utime (transactionsQuery options) = Some 0"
    by (simp_all add: transactionsQuery_def truthy_number_def)
  from from_set to_set unset zero msToSec_floor msToSec_truncating
    fetchTransactions_query[of fetchJson X options]
  show ?thesis by blast
qed

text \<open>
  The theorem on a window with an exclusive lower bound and an upper bound whose flag is
  omitted, and on a call without bounds.
\<close>

theorem C3_time_bounds_witness:
  "start_utime (transactionsQuery (ex_options (Some 1700000000500) (Some False)
                                      (Some 1700000999999) None))
     = Some (msToSec 1700000000500 + 1)
   \<and> end_utime (transactionsQuery (ex_options (Some 1700000000500) (Some False)
                                      (Some 1700000999999) None))
       = Some (msToSec 1700000999999 - 1)
   \<and> msToSec 1700000000500 = 1700000000
   \<and> start_utime (transactionsQuery (ex_options None None None None)) = None"
proof -
  have "start_utime (transactionsQuery (ex_options (Some 1700000000500) (Some False)
                                      (Some 1700000999999) None))
     = Some (msToSec 1700000000500 + 1)
   \<and> end_utime (transactionsQuery (ex_options (Some 1700000000500) (Some False)
                                      (Some 1700000999999) None))
       = Some (msToSec 1700000999999 - 1)"
    using C3_time_bounds[of "ex_options (Some 1700000000500) (Some False) (Some 1700000999999) None"]
    by (simp add: ex_options_def)
  moreover have "start_utime (transactionsQuery (ex_options None None None None)) = None"
    using C3_time_bounds[of "ex_options None None None None"]
    by (simp add: ex_options_def)
  moreover have "msToSec 1700000000500 = 1700000000"
    by (simp add: msToSec_def)
  ultimately show ?thesis by blast
qed

text \<open>
  Where the claim as stated fails: at -1500 ms the code passes -2, truncation toward zero
  gives -1; at 0 ms with an exclusive lower bound the code passes 0, not 0 + 1.
\<close>

theorem C3_floor_and_zero:
  "start_utime (transactionsQuery (ex_options (Some (- 1500)) (Some True) None None)) = Some (- 2)
   \<and> spec_msToSec_truncating (- 1500) = - 1
   \<and> start_utime (transactionsQuery (ex_options (Some 0) (Some False) None None)) = Some 0
   \<and> spec_msToSec_truncating 0 + 1 = 1"
  by (simp add: ex_options_def transactionsQuery_def truthy_number_def truthy_boolean_def
        msToSec_def spec_msToSec_truncating_def)

text \<open>
  C10, as amended. A bound equal to 0 is not treated as omitted: the query's
  \<^verbatim>\<open>start_utime\<close> (respectively \<^verbatim>\<open>end_utime\<close>) is the number 0, which differs from
  the unset value an omitted bound gives; no exclusive-boundary shift is applied to it,
  whatever the inclusion flag.
\<close>

theorem C10_zero_bound:
  "(fromTimestamp options = Some 0 \<longrightarrow>
      start_utime (transactionsQuery options) = Some 0
      \<and> start_utime (transactionsQuery options)
          \<noteq> start_utime (transactionsQuery (options\<lparr>fromTimestamp := None\<rparr>)))
   \<and> (toTimestamp options = Some 0 \<longrightarrow>
      end_utime (transactionsQuery options) = Some 0
      \<and> end_utime (transactionsQuery options)
          \<noteq> end_utime (transactionsQuery (options\<lparr>toTimestamp := None\<rparr>)))"
  by (simp add: transactionsQuery_def truthy_number_def)

text \<open>The theorem on a call with both bounds 0 and both flags false.\<close>

theorem C10_zero_bound_witness:
  "start_utime (transactionsQuery (ex_options (Some 0) (Some False) (Some 0) (Some False))) = Some 0
   \<and> end_utime (transactionsQuery (ex_options (Some 0) (Some False) (Some 0) (Some False))) = Some 0"
  using C10_zero_bound[of "ex_options (Some 0) (Some False) (Some 0) (Some False)"]
  by (simp add: ex_options_def)

text \<open>
  The claim as stated has the bound unset for 0: the query holds 0 for the bound 0 and
  is unset only for the omitted bound.
\<close>

theorem C10_zero_is_not_omitted:
  "start_utime (transactionsQuery (ex_options (Some 0) (Some False) None None)) = Some 0
   \<and> start_utime (transactionsQuery (ex_options None (Some False) None None)) = None
   \<and> end_utime (transactionsQuery (ex_options None None (Some 0) (Some False))) = Some 0
   \<and> end_utime (transactionsQuery (ex_options None None None (Some False))) = None"
  by (simp add: ex_options_def transactionsQuery_def truthy_number_def)

section \<open>Addresses missing from the inline address book\<close>

text \<open>
  C4, as amended. Let the source or the destination of a relevant message of some event of
  the page be absent from the inline address book. If the absent address string is not the
  name of a property inherited from \<^verbatim>\<open>Object.prototype\<close>, \<^verbatim>\<open>fetchTransactions\<close> fails
  and returns no record. The failure is not a lookup error of its own: whenever the call
  fails on a page, the error is the runtime's \<open>TypeError\<close> (as for reading a property of
  \<^verbatim>\<open>undefined\<close>) or an error thrown by the address codec. If the call returns, every
  absent address string is such an inherited name (\<^verbatim>\<open>constructor\<close>, say), and the result
  holds a record whose source or destination address field is missing.
\<close>

theorem C4_missing_address_fails:
  assumes "callApiV3 fetchJson X (network options) ''/transactions'' (transactionsQuery options)
             = Inr data"
    and "tx \<in> set (transactions data)"
    and "msg \<in> set (relevantMsgs tx)"
    and "address_book data (property_key (source msg)) = None
           \<or> address_book data (property_key (destination msg)) = None"
  shows "((address_book data (property_key (source msg)) = None
             \<and> property_key (source msg) \<notin> set Object_prototype_keys)
          \<or> (address_book data (property_key (destination msg)) = None
             \<and> property_key (destination msg) \<notin> set Object_prototype_keys)
          \<longrightarrow> (\<exists>e. fetchTransactions fetchJson X options = Inl e
                 \<and> (e = TypeError \<or> (\<exists>a. toBase64Address X a True (network options) = Inl e))))
     \<and> (\<forall>e. fetchTransactions fetchJson X options = Inl e
            \<longrightarrow> e = TypeError \<or> (\<exists>a. toBase64Address X a True (network options) = Inl e))
     \<and> (\<forall>rs. fetchTransactions fetchJson X options = Inr rs
            \<longrightarrow> (\<exists>r\<in>set rs. fromAddress r = None \<or> toAddress r = None)
                \<and> (address_book data (property_key (source msg)) = None
                     \<longrightarrow> property_key (source msg) \<in> set Object_prototype_keys)
                \<and> (address_book data (property_key (destination msg)) = None
                     \<longrightarrow> property_key (destination msg) \<in> set Object_prototype_keys))"
proof -
  have err: "e = TypeError \<or> (\<exists>a. toBase64Address X a True (network options) = Inl e)"
    if "fetchTransactions fetchJson X options = Inl e" for e
  proof -
    from fetchTransactions_Inl[OF assms(1) that] obtain tx' where
      "parseRawTransaction X (network options) tx' (address_book data) = Inl e"
      by blast
    from parseRawTransaction_Inl[OF this] show ?thesis .
  qed
  have fails: "\<exists>e. fetchTransactions fetchJson X options = Inl e"
    if "js_get (address_book data) (property_key (source msg)) = Absent
          \<or> js_get (address_book data) (property_key (destination msg)) = Absent"
  proof -
    from assms(3) that obtain e0 where
      "parseRawTransaction X (network options) tx (address_book data) = Inl e0"
      using parseRawTransaction_missing by blast
    with assms(1,2) show ?thesis
      using fetchTransactions_fails by blast
  qed
  have returned: "(\<exists>r\<in>set rs. fromAddress r = None \<or> toAddress r = None)
                \<and> (address_book data (property_key (source msg)) = None
                     \<longrightarrow> property_key (source msg) \<in> set Object_prototype_keys)
                \<and> (address_book data (property_key (destination msg)) = None
                     \<longrightarrow> property_key (destination msg) \<in> set Object_prototype_keys)"
    if run: "fetchTransactions fetchJson X options = Inr rs" for rs
  proof -
    from fetchTransactions_Inr_event[OF assms(1) run assms(2)] obtain rs' where
      parsed: "parseRawTransaction X (network options) tx (address_book data) = Inr rs'"
      and sub: "set rs' \<subseteq> set rs"
      by blast
    from parseRawTransaction_missing_field[OF parsed assms(3,4)] sub
    have "\<exists>r\<in>set rs. fromAddress r = None \<or> toAddress r = None" by blast
    moreover from fails run
    have "js_get (address_book data) (property_key (source msg)) \<noteq> Absent"
      and "js_get (address_book data) (property_key (destination msg)) \<noteq> Absent"
      by auto
    ultimately show ?thesis by (auto simp: js_get_Absent)
  qed
  from err fails returned show ?thesis
    by (auto simp: js_get_Absent)
qed

text \<open>
  The theorem on an outgoing event whose first outbound message goes to \<^verbatim>\<open>0:A\<close>, with a
  book that lacks \<^verbatim>\<open>0:A\<close> (the call fails), and on an incoming event from the address
  string \<^verbatim>\<open>constructor\<close> (the call returns a record without source address).
\<close>

theorem C4_missing_address_fails_witness:
  "(\<exists>e. fetchTransactions (ex_service [ex_outgoing] ex_book_without_A) ex_X
            (ex_options None None None None) = Inl e)
   \<and> (\<exists>rs. fetchTransactions (ex_service [ex_inherited] ex_book) ex_X
              (ex_options None None None None) = Inr rs
          \<and> (\<exists>r\<in>set rs. fromAddress r = None \<or> toAddress r = None))"
proof -
  have tx: "ex_outgoing \<in> set [ex_outgoing]" by simp
  have msg: "ex_msg (Str ''0:W'') (Str ''0:A'') 3 \<in> set (relevantMsgs ex_outgoing)"
    by (simp add: relevantMsgs_def ex_defs truthy_string_def)
  have missing: "ex_book_without_A (property_key (destination (ex_msg (Str ''0:W'') (Str ''0:A'') 3))) = None"
    and plain: "property_key (destination (ex_msg (Str ''0:W'') (Str ''0:A'') 3))
                  \<notin> set Object_prototype_keys"
    by (simp_all add: ex_book_without_A_def ex_defs property_key_def Object_prototype_keys_def)
  from C4_missing_address_fails[where fetchJson = "ex_service [ex_outgoing] ex_book_without_A"
      and X = ex_X and options = "ex_options None None None None" and tx = ex_outgoing
      and msg = "ex_msg (Str ''0:W'') (Str ''0:A'') 3", OF call_ex_service] tx msg missing plain
  have 1: "\<exists>e. fetchTransactions (ex_service [ex_outgoing] ex_book_without_A) ex_X
            (ex_options None None None None) = Inl e"
    by auto
  have tx': "ex_inherited \<in> set [ex_inherited]" by simp
  have msg': "ex_msg (Str ''constructor'') (Str ''0:W'') 5 \<in> set (relevantMsgs ex_inherited)"
    by (simp add: relevantMsgs_def ex_inherited_def ex_defs truthy_string_def)
  have missing': "ex_book (property_key (source (ex_msg (Str ''constructor'') (Str ''0:W'') 5))) = None"
    by (simp add: ex_defs property_key_def)
  from C4_missing_address_fails[where fetchJson = "ex_service [ex_inherited] ex_book"
      and X = ex_X and options = "ex_options None None None None" and tx = ex_inherited
      and msg = "ex_msg (Str ''constructor'') (Str ''0:W'') 5", OF call_ex_service]
    tx' msg' missing' run_ex_inherited
  have 2: "\<exists>rs. fetchTransactions (ex_service [ex_inherited] ex_book) ex_X
              (ex_options None None None None) = Inr rs
          \<and> (\<exists>r\<in>set rs. fromAddress r = None \<or> toAddress r = None)"
    by auto
  from 1 2 show ?thesis by blast
qed

text \<open>
  The claim as stated fails twice. The failure for a missing entry is not a distinct error:
  the page whose book lacks \<^verbatim>\<open>0:A\<close> and a page with a complete book but an event without
  inbound message fail with the same error value. And a missing entry need not fail at all:
  for the source \<^verbatim>\<open>constructor\<close>, which the book lacks, the record is produced with
  its source address field missing.
\<close>

theorem C4_error_not_distinct:
  "fetchTransactions (ex_service [ex_outgoing] ex_book_without_A) ex_X
     (ex_options None None None None) = Inl TypeError
   \<and> fetchTransactions (ex_service [ex_event None []] ex_book) ex_X
       (ex_options None None None None) = Inl TypeError
   \<and> ex_book ''constructor'' = None
   \<and> map_sum id (map (\<lambda>r. (fromAddress r, toAddress r)))
        (fetchTransactions (ex_service [ex_inherited] ex_book) ex_X
           (ex_options None None None None))
       = Inr [(None, Some ''EQW'')]"
  by (simp add: ex_defs ex_inherited_def ex_book_without_A_def run_defs)

section \<open>Direction of an event\<close>

text \<open>
  C5. For an event with an inbound message: if that message's source is empty
  (\<^verbatim>\<open>null\<close>, absent or the empty string), the relevant messages are the outbound
  messages: the event is parsed exactly when every outbound message resolves, and then
  every record is outgoing, one per outbound message, with that message's negated value
  and body. If the source is non-empty, the only relevant message is the inbound message:
  the event is parsed exactly when that message resolves, the single record is incoming
  with its value and body, and the outbound list is never read: replacing it changes
  nothing.
\<close>

theorem C5_direction:
  assumes "in_msg rawTx = Some inMsg"
  shows "(\<not> truthy_string (source inMsg) \<longrightarrow>
            relevantMsgs rawTx = out_msgs rawTx
            \<and> ((\<exists>rs. parseRawTransaction X net rawTx addressBook = Inr rs)
                 \<longleftrightarrow> (\<forall>msg\<in>set (out_msgs rawTx). message_resolves X net addressBook False msg))
            \<and> (\<forall>rs. parseRawTransaction X net rawTx addressBook = Inr rs \<longrightarrow>
                  length rs = length (out_msgs rawTx)
                  \<and> map isIncoming rs = replicate (length (out_msgs rawTx)) False
                  \<and> map amount rs = map (\<lambda>msg. - msg_value msg) (out_msgs rawTx)
                  \<and> map extraData_body rs = map getRawBody (out_msgs rawTx)))
     \<and> (truthy_string (source inMsg) \<longrightarrow>
            relevantMsgs rawTx = [inMsg]
            \<and> ((\<exists>rs. parseRawTransaction X net rawTx addressBook = Inr rs)
                 \<longleftrightarrow> message_resolves X net addressBook True inMsg)
            \<and> (\<forall>os. parseRawTransaction X net (rawTx\<lparr>out_msgs := os\<rparr>) addressBook
                       = parseRawTransaction X net rawTx addressBook)
            \<and> (\<forall>rs. parseRawTransaction X net rawTx addressBook = Inr rs \<longrightarrow>
                  length rs = 1
                  \<and> map isIncoming rs = [True]
                  \<and> map amount rs = [msg_value inMsg]
                  \<and> map extraData_body rs = [getRawBody inMsg]))"
proof (intro conjI impI allI)
  assume out: "\<not> truthy_string (source inMsg)"
  with assms show rel: "relevantMsgs rawTx = out_msgs rawTx"
    by (simp add: relevantMsgs_def)
  from parseRawTransaction_returns_iff[OF assms, of X net addressBook] out rel
  show "(\<exists>rs. parseRawTransaction X net rawTx addressBook = Inr rs)
          \<longleftrightarrow> (\<forall>msg\<in>set (out_msgs rawTx). message_resolves X net addressBook False msg)"
    by simp
  fix rs
  assume run: "parseRawTransaction X net rawTx addressBook = Inr rs"
  from parseRawTransaction_length[OF run] rel
  show "length rs = length (out_msgs rawTx)" by simp
  from parseRawTransaction_fields(1)[OF run assms] out rel
  show "map isIncoming rs = replicate (length (out_msgs rawTx)) False"
    by (simp add: map_replicate_const)
  from parseRawTransaction_fields(2)[OF run assms] out rel
  show "map amount rs = map (\<lambda>msg. - msg_value msg) (out_msgs rawTx)" by simp
  from parseRawTransaction_fields(3)[OF run assms] rel
  show "map extraData_body rs = map getRawBody (out_msgs rawTx)" by simp
next
  assume inc: "truthy_string (source inMsg)"
  with assms show rel: "relevantMsgs rawTx = [inMsg]"
    by (simp add: relevantMsgs_def)
  from parseRawTransaction_returns_iff[OF assms, of X net addressBook] inc rel
  show "(\<exists>rs. parseRawTransaction X net rawTx addressBook = Inr rs)
          \<longleftrightarrow> message_resolves X net addressBook True inMsg"
    by simp
  show "parseRawTransaction X net (rawTx\<lparr>out_msgs := os\<rparr>) addressBook
          = parseRawTransaction X net rawTx addressBook" for os
    using assms inc by (rule relevantMsgs_out_msgs_update)
  fix rs
  assume run: "parseRawTransaction X net rawTx addressBook = Inr rs"
  from parseRawTransaction_length[OF run] rel
  show "length rs = 1" by simp
  from parseRawTransaction_fields(1)[OF run assms] inc rel
  show "map isIncoming rs = [True]" by simp
  from parseRawTransaction_fields(2)[OF run assms] inc rel
  show "map amount rs = [msg_value inMsg]" by simp
  from parseRawTransaction_fields(3)[OF run assms] rel
  show "map extraData_body rs = [getRawBody inMsg]" by simp
qed

text \<open>
  The theorem on three events: one with source \<^verbatim>\<open>null\<close> and two outbound messages (two
  outgoing records, amounts -3 and -7), one with the empty string as source (one outgoing
  record), and one with a source address (one incoming record of amount 5, whose outbound
  message can be dropped without effect).
\<close>

theorem C5_direction_witness:
  "(\<exists>rs. parseRawTransaction ex_X Mainnet ex_outgoing ex_book = Inr rs
         \<and> length rs = 2 \<and> map isIncoming rs = [False, False] \<and> map amount rs = [- 3, - 7])
   \<and> (\<exists>rs. parseRawTransaction ex_X Mainnet ex_empty_source ex_book = Inr rs
         \<and> map isIncoming rs = [False] \<and> map amount rs = [- 4])
   \<and> (\<exists>rs. parseRawTransaction ex_X Mainnet (ex_incoming 5) ex_book = Inr rs
         \<and> map isIncoming rs = [True] \<and> map amount rs = [5])
   \<and> parseRawTransaction ex_X Mainnet ((ex_incoming 5)\<lparr>out_msgs := []\<rparr>) ex_book
       = parseRawTransaction ex_X Mainnet (ex_incoming 5) ex_book"
proof -
  have out: "in_msg ex_outgoing = Some (ex_msg Null (Str ''0:W'') 0)"
    and null: "\<not> truthy_string (source (ex_msg Null (Str ''0:W'') 0))"
    and outs: "out_msgs ex_outgoing
                 = [ex_msg (Str ''0:W'') (Str ''0:A'') 3, ex_msg (Str ''0:W'') (Str ''0:B'') 7]"
    by (simp_all add: ex_defs truthy_string_def)
  have out_ok: "\<forall>msg\<in>set (out_msgs ex_outgoing). message_resolves ex_X Mainnet ex_book False msg"
    by (simp add: outs) (simp add: ex_defs resolve_defs)
  from C5_direction[OF out, of ex_X Mainnet ex_book] null out_ok
  have 1: "\<exists>rs. parseRawTransaction ex_X Mainnet ex_outgoing ex_book = Inr rs
         \<and> length rs = 2 \<and> map isIncoming rs = [False, False] \<and> map amount rs = [- 3, - 7]"
    by (auto simp: outs ex_msg_def)
  have emp: "in_msg ex_empty_source = Some (ex_msg (Str []) (Str ''0:W'') 0)"
    and empty: "\<not> truthy_string (source (ex_msg (Str []) (Str ''0:W'') 0))"
    and emp_outs: "out_msgs ex_empty_source = [ex_msg (Str ''0:W'') (Str ''0:A'') 4]"
    by (simp_all add: ex_empty_source_def ex_defs truthy_string_def)
  have emp_ok: "\<forall>msg\<in>set (out_msgs ex_empty_source). message_resolves ex_X Mainnet ex_book False msg"
    by (simp add: emp_outs) (simp add: ex_defs resolve_defs)
  from C5_direction[OF emp, of ex_X Mainnet ex_book] empty emp_ok
  have 2: "\<exists>rs. parseRawTransaction ex_X Mainnet ex_empty_source ex_book = Inr rs
         \<and> map isIncoming rs = [False] \<and> map amount rs = [- 4]"
    by (auto simp: emp_outs ex_msg_def)
  have inc: "in_msg (ex_incoming 5) = Some (ex_msg (Str ''0:A'') (Str ''0:W'') 5)"
    and full: "truthy_string (source (ex_msg (Str ''0:A'') (Str ''0:W'') 5))"
    by (simp_all add: ex_defs truthy_string_def)
  have inc_ok: "message_resolves ex_X Mainnet ex_book True (ex_msg (Str ''0:A'') (Str ''0:W'') 5)"
    by (simp add: ex_defs resolve_defs)
  from C5_direction[OF inc, of ex_X Mainnet ex_book] full inc_ok
  have 3: "(\<exists>rs. parseRawTransaction ex_X Mainnet (ex_incoming 5) ex_book = Inr rs
         \<and> map isIncoming rs = [True] \<and> map amount rs = [5])
     \<and> parseRawTransaction ex_X Mainnet ((ex_incoming 5)\<lparr>out_msgs := []\<rparr>) ex_book
         = parseRawTransaction ex_X Mainnet (ex_incoming 5) ex_book"
    by (auto simp: ex_msg_def)
  from 1 2 3 show ?thesis by blast
qed

section \<open>Amounts\<close>

text \<open>
  C6, as amended. Every record's amount is the originating message's value for an incoming
  record and its negation for an outgoing record, exactly and at any size. So the
  magnitudes agree; for a positive value the amount is positive when incoming and negative
  when outgoing; and for the value 0 the amount is 0, neither positive nor negative.
\<close>

theorem C6_amount_sign:
  assumes "callApiV3 fetchJson X (network options) ''/transactions'' (transactionsQuery options)
             = Inr data"
    and "fetchTransactions fetchJson X options = Inr rs"
  shows "\<exists>rss. rs = concat rss
           \<and> list_all2
               (\<lambda>tx rs'. length rs' = length (relevantMsgs tx)
                  \<and> (\<forall>i<length rs'.
                        amount (rs' ! i) = (if isIncoming (rs' ! i) then msg_value (relevantMsgs tx ! i)
                                            else - msg_value (relevantMsgs tx ! i))
                        \<and> \<bar>amount (rs' ! i)\<bar> = \<bar>msg_value (relevantMsgs tx ! i)\<bar>
                        \<and> (0 < msg_value (relevantMsgs tx ! i) \<longrightarrow>
                              (if isIncoming (rs' ! i) then 0 < amount (rs' ! i)
                               else amount (rs' ! i) < 0))
                        \<and> (msg_value (relevantMsgs tx ! i) = 0 \<longrightarrow> amount (rs' ! i) = 0)))
               (transactions data) rss"
proof (rule fetchTransactions_events[OF assms])
  fix tx rs'
  assume run: "parseRawTransaction X (network options) tx (address_book data) = Inr rs'"
  from parseRawTransaction_amounts[OF run] parseRawTransaction_length[OF run]
  show "length rs' = length (relevantMsgs tx)
      \<and> (\<forall>i<length rs'.
            amount (rs' ! i) = (if isIncoming (rs' ! i) then msg_value (relevantMsgs tx ! i)
                                else - msg_value (relevantMsgs tx ! i))
            \<and> \<bar>amount (rs' ! i)\<bar> = \<bar>msg_value (relevantMsgs tx ! i)\<bar>
            \<and> (0 < msg_value (relevantMsgs tx ! i) \<longrightarrow>
                  (if isIncoming (rs' ! i) then 0 < amount (rs' ! i)
                   else amount (rs' ! i) < 0))
            \<and> (msg_value (relevantMsgs tx ! i) = 0 \<longrightarrow> amount (rs' ! i) = 0))"
    by simp
qed

text \<open>The theorem on the page with the outgoing example: amounts -3 and -7.\<close>

theorem C6_amount_sign_witness:
  "\<exists>rss. [ex_record 1 ''EQA'' ''0:A'' (- 3), ex_record 2 ''EQB'' ''0:B'' (- 7)] = concat rss
           \<and> list_all2
               (\<lambda>tx rs'. length rs' = length (relevantMsgs tx)
                  \<and> (\<forall>i<length rs'.
                        amount (rs' ! i) = (if isIncoming (rs' ! i) then msg_value (relevantMsgs tx ! i)
                                            else - msg_value (relevantMsgs tx ! i))
                        \<and> \<bar>amount (rs' ! i)\<bar> = \<bar>msg_value (relevantMsgs tx ! i)\<bar>
                        \<and> (0 < msg_value (relevantMsgs tx ! i) \<longrightarrow>
                              (if isIncoming (rs' ! i) then 0 < amount (rs' ! i)
                               else amount (rs' ! i) < 0))
                        \<and> (msg_value (relevantMsgs tx ! i) = 0 \<longrightarrow> amount (rs' ! i) = 0)))
               [ex_outgoing] rss"
  using C6_amount_sign[OF call_ex_service run_ex_outgoing] by simp

text \<open>
  An incoming message of value 0 gives an incoming record of amount 0, which is not a
  positive integer.
\<close>

theorem C6_zero_value_amount:
  "map_sum id (map (\<lambda>r. (isIncoming r, amount r)))
     (fetchTransactions (ex_service [ex_incoming 0] ex_book) ex_X (ex_options None None None None))
   = Inr [(True, 0)]"
  by (simp add: ex_defs run_defs)

section \<open>Single-address lookup\<close>

text \<open>
  C7, as amended. \<^verbatim>\<open>fixAddressFormat\<close> asks the service for the one address and
  returns the entry of the response's address book keyed by exactly that address string
  (no other entry of the book matters). When the entry is absent the operation does not
  fail: it returns \<^verbatim>\<open>undefined\<close>, or, when the address string names a property
  inherited from \<^verbatim>\<open>Object.prototype\<close>, that property. It fails with the remote call's
  error when the call fails, and with a \<open>TypeError\<close> when the response has no
  \<^verbatim>\<open>address_book\<close>.
\<close>

theorem C7_fixAddressFormat:
  "(\<forall>e. callApiV3 fetchJson X net ''/addressBook'' addr = Inl e \<longrightarrow>
       fixAddressFormat fetchJson X net addr = Inl e)
   \<and> (\<forall>result. callApiV3 fetchJson X net ''/addressBook'' addr = Inr result
              \<and> result_address_book result = None \<longrightarrow>
       fixAddressFormat fetchJson X net addr = Inl TypeError)
   \<and> (\<forall>result book. callApiV3 fetchJson X net ''/addressBook'' addr = Inr result
              \<and> result_address_book result = Some book \<longrightarrow>
         (\<forall>v. book addr = Some v \<longrightarrow> fixAddressFormat fetchJson X net addr = Inr (Own v))
         \<and> (book addr = None \<and> addr \<in> set Object_prototype_keys \<longrightarrow>
               fixAddressFormat fetchJson X net addr = Inr Inherited)
         \<and> (book addr = None \<and> addr \<notin> set Object_prototype_keys \<longrightarrow>
               fixAddressFormat fetchJson X net addr = Inr Absent)
         \<and> (\<forall>transport result' book'.
               callApiV3 transport X net ''/addressBook'' addr = Inr result'
               \<and> result_address_book result' = Some book' \<and> book' addr = book addr \<longrightarrow>
               fixAddressFormat transport X net addr = fixAddressFormat fetchJson X net addr))"
  by (auto simp: fixAddressFormat_def js_get_def)

text \<open>
  The theorem on a response that holds the address, on one that holds another address
  only, and on a response without an address book.
\<close>

theorem C7_fixAddressFormat_witness:
  "fixAddressFormat (ex_format_service (Some [''0:A'' \<mapsto> ''EQA''])) ex_X Mainnet ''0:A''
     = Inr (Own ''EQA'')
   \<and> fixAddressFormat (ex_format_service (Some [''0:B'' \<mapsto> ''EQB''])) ex_X Mainnet ''0:A''
       = Inr Absent
   \<and> fixAddressFormat (ex_format_service None) ex_X Mainnet ''0:A'' = Inl TypeError"
proof -
  have plain: "''0:A'' \<notin> set Object_prototype_keys"
    by (simp add: Object_prototype_keys_def)
  from C7_fixAddressFormat[of "ex_format_service (Some [''0:A'' \<mapsto> ''EQA''])" ex_X Mainnet "''0:A''"]
  have 1: "fixAddressFormat (ex_format_service (Some [''0:A'' \<mapsto> ''EQA''])) ex_X Mainnet ''0:A''
     = Inr (Own ''EQA'')"
    by (simp add: call_ex_format_service)
  from C7_fixAddressFormat[of "ex_format_service (Some [''0:B'' \<mapsto> ''EQB''])" ex_X Mainnet "''0:A''"]
    plain
  have 2: "fixAddressFormat (ex_format_service (Some [''0:B'' \<mapsto> ''EQB''])) ex_X Mainnet ''0:A''
     = Inr Absent"
    by (simp add: call_ex_format_service)
  from C7_fixAddressFormat[of "ex_format_service None" ex_X Mainnet "''0:A''"]
  have 3: "fixAddressFormat (ex_format_service None) ex_X Mainnet ''0:A'' = Inl TypeError"
    by (simp add: call_ex_format_service)
  from 1 2 3 show ?thesis by blast
qed

text \<open>
  On a response whose address book is empty the call succeeds: with \<^verbatim>\<open>undefined\<close> for
  \<^verbatim>\<open>0:A\<close>, with an inherited property for \<^verbatim>\<open>constructor\<close>. No lookup error is
  raised.
\<close>

theorem C7_absent_entry_is_returned:
  "fixAddressFormat (ex_format_service (Some Map.empty)) ex_X Mainnet ''0:A'' = Inr Absent
   \<and> fixAddressFormat (ex_format_service (Some Map.empty)) ex_X Mainnet ''constructor''
       = Inr Inherited"
  by (simp add: fixAddressFormat_def callApiV3_def ex_format_service_def Let_def js_get_def
        Object_prototype_keys_def)

section \<open>Batched address lookup\<close>





end
